theory Spec2Isabelle
  imports Main "HOL-Library.Word"
begin

unbundle bit_operations_syntax

section \<open>JavaScript strings and values of the dashboard's server actions\<close>

text \<open>
  A JavaScript string is a sequence of UTF-16 code units: \<open>length\<close>, \<open>trim\<close>,
  \<open>startsWith\<close> and \<open>===\<close> all work on code units. \<open>str\<close> embeds an ASCII literal
  of the source.
\<close>

type_synonym jsstring = "16 word list"

definition str :: "string \<Rightarrow> jsstring" where
  "str s = map of_char s"

text \<open>
  \<open>String.prototype.trim\<close> removes WhiteSpace and LineTerminator code units from both
  ends: TAB, LF, VT, FF, CR, SP, NBSP, U+1680, U+2000..U+200A, U+2028, U+2029, U+202F,
  U+205F, U+3000 and U+FEFF.
\<close>

definition is_js_whitespace :: "16 word \<Rightarrow> bool" where
  "is_js_whitespace c \<longleftrightarrow>
     c \<in> {0x09, 0x0A, 0x0B, 0x0C, 0x0D, 0x20, 0xA0, 0x1680,
          0x2028, 0x2029, 0x202F, 0x205F, 0x3000, 0xFEFF}
     \<or> (0x2000 \<le> c \<and> c \<le> 0x200A)"

definition trim :: "jsstring \<Rightarrow> jsstring" where
  "trim s = rev (dropWhile is_js_whitespace (rev (dropWhile is_js_whitespace s)))"

definition startsWith :: "jsstring \<Rightarrow> jsstring \<Rightarrow> bool" where
  "startsWith s p \<longleftrightarrow> take (length p) s = p"

text \<open>
  An optional string argument (\<open>notes?: string\<close>) is \<open>None\<close> when it is left out.
  \<open>if (notes)\<close> tests truthiness: the argument is present and not the empty string.
\<close>

definition truthy :: "jsstring option \<Rightarrow> bool" where
  "truthy notes = (case notes of None \<Rightarrow> False | Some n \<Rightarrow> n \<noteq> [])"

datatype jsvalue = JString jsstring | JNumber int | JBool bool | JNull

text \<open>The value every server action returns: \<open>{ success: boolean; error?: string }\<close>.\<close>

record action_result =
  success :: bool
  error :: "jsstring option"

section \<open>\<open>updateIncidentStatus\<close> (web/src/actions/incidents.ts)\<close>

text \<open>
  A row of the \<open>incidents\<close> table maps column names to values; \<open>updateData\<close> is the
  \<open>Record<string, unknown>\<close> the action builds. \<open>new Date().toISOString()\<close> is read
  once for \<open>updated_at\<close> (\<open>now0\<close>) and once more in the branch that sets a timestamp
  (\<open>now1\<close>).
\<close>

type_synonym row = "string \<rightharpoonup> jsvalue"

definition updateData :: "jsstring \<Rightarrow> jsstring option \<Rightarrow> jsstring \<Rightarrow> jsstring \<Rightarrow> row" where
  "updateData status notes now0 now1 =
     (let u0 = [''status'' \<mapsto> JString status, ''updated_at'' \<mapsto> JString now0];
          u1 = (if status = str ''dispatched'' then u0(''dispatched_at'' \<mapsto> JString now1)
                else if status = str ''arrived'' then u0(''arrived_at'' \<mapsto> JString now1)
                else if status = str ''completed'' then
                  (let u = u0(''completed_at'' \<mapsto> JString now1)
                   in (case notes of
                         Some n \<Rightarrow> if truthy notes then u(''completion_notes'' \<mapsto> JString n) else u
                       | None \<Rightarrow> u))
                else u0)
      in (case notes of
            Some n \<Rightarrow> if truthy notes \<and> status \<noteq> str ''completed''
                      then u1(''incident_notes'' \<mapsto> JString n) else u1
          | None \<Rightarrow> u1))"

text \<open>
  The table is keyed by the \<open>id\<close> column. \<open>supabase.from("incidents").update(u).eq("id", id)\<close>
  overwrites, in the row whose id matches, exactly the columns of \<open>u\<close>; a failed
  statement (\<open>db_error\<close> carries its message) changes nothing.
\<close>

record database =
  incidents :: "jsstring \<rightharpoonup> row"

definition supabase_update :: "row \<Rightarrow> jsstring \<Rightarrow> database \<Rightarrow> database" where
  "supabase_update u ident db =
     (case incidents db ident of
        None \<Rightarrow> db
      | Some r \<Rightarrow> db\<lparr>incidents := (incidents db)(ident \<mapsto> r ++ u)\<rparr>)"

definition updateIncidentStatus ::
  "jsstring option \<Rightarrow> jsstring \<Rightarrow> jsstring \<Rightarrow> jsstring option \<Rightarrow> jsstring \<Rightarrow> jsstring
     \<Rightarrow> database \<Rightarrow> action_result \<times> database" where
  "updateIncidentStatus db_error ident status notes now0 now1 db =
     (case db_error of
        Some msg \<Rightarrow> (\<lparr>success = False, error = Some msg\<rparr>, db)
      | None \<Rightarrow> (\<lparr>success = True, error = None\<rparr>,
                 supabase_update (updateData status notes now0 now1) ident db))"

section \<open>\<open>addServiceNumber\<close> (the settings server actions)\<close>

text \<open>
  \<open>ServiceType\<close> is the union of the four service names; the constructors are
  capitalised because the record below has fields of the same names. The top-level
  \<open>enabled\<close> flag of \<open>EmergencySmsSettings\<close> is \<open>all_enabled\<close> here, since
  \<open>ServiceSettings\<close> has a field \<open>enabled\<close> too.
\<close>

datatype ServiceType = Dispatch | Ambulance | Police | Fire_brigade

record ServiceSettings =
  enabled :: bool
  phone_numbers :: "jsstring list"

record EmergencySmsSettings =
  all_enabled :: bool
  dispatch :: ServiceSettings
  ambulance :: ServiceSettings
  police :: ServiceSettings
  fire_brigade :: ServiceSettings

text \<open>\<open>settings[service]\<close>, read and written.\<close>

fun service_of :: "EmergencySmsSettings \<Rightarrow> ServiceType \<Rightarrow> ServiceSettings" where
  "service_of s Dispatch = dispatch s"
| "service_of s Ambulance = ambulance s"
| "service_of s Police = police s"
| "service_of s Fire_brigade = fire_brigade s"

fun with_service :: "EmergencySmsSettings \<Rightarrow> ServiceType \<Rightarrow> ServiceSettings \<Rightarrow> EmergencySmsSettings" where
  "with_service s Dispatch v = s\<lparr>dispatch := v\<rparr>"
| "with_service s Ambulance v = s\<lparr>ambulance := v\<rparr>"
| "with_service s Police v = s\<lparr>police := v\<rparr>"
| "with_service s Fire_brigade v = s\<lparr>fire_brigade := v\<rparr>"

text \<open>
  The \<open>notification_settings\<close> table as the actions see it: \<open>setting_row\<close> is the
  \<open>setting_value\<close> of the row keyed \<open>emergency_sms_settings\<close> (\<open>None\<close> when there is no
  such row, where \<open>.single()\<close> reports an error), and \<open>update_log\<close> records every
  \<open>update\<close> statement sent to the table, in order, whether it succeeded or not.
  \<open>select_error\<close> and \<open>update_error\<close> say whether the store fails the statement.
\<close>

record settings_store =
  setting_row :: "EmergencySmsSettings option"
  update_log :: "EmergencySmsSettings list"

definition getEmergencySmsSettings :: "bool \<Rightarrow> settings_store \<Rightarrow> EmergencySmsSettings option" where
  "getEmergencySmsSettings select_error st = (if select_error then None else setting_row st)"

definition updateEmergencySmsSettings ::
  "jsstring option \<Rightarrow> EmergencySmsSettings \<Rightarrow> settings_store \<Rightarrow> action_result \<times> settings_store" where
  "updateEmergencySmsSettings update_error settings st =
     (let st1 = st\<lparr>update_log := update_log st @ [settings]\<rparr>
      in (case update_error of
            Some msg \<Rightarrow> (\<lparr>success = False, error = Some msg\<rparr>, st1)
          | None \<Rightarrow> (\<lparr>success = True, error = None\<rparr>,
                     st1\<lparr>setting_row := map_option (\<lambda>_. settings) (setting_row st)\<rparr>)))"

definition addServiceNumber ::
  "bool \<Rightarrow> jsstring option \<Rightarrow> ServiceType \<Rightarrow> jsstring \<Rightarrow> settings_store
     \<Rightarrow> action_result \<times> settings_store" where
  "addServiceNumber select_error update_error service phoneNumber st =
     (case getEmergencySmsSettings select_error st of
        None \<Rightarrow> (\<lparr>success = False, error = Some (str ''Failed to fetch current settings'')\<rparr>, st)
      | Some settings \<Rightarrow>
          (let cleanNumber = trim phoneNumber
           in if \<not> startsWith cleanNumber (str ''+'') \<or> length cleanNumber < 10
              then (\<lparr>success = False,
                     error = Some (str ''Phone number must start with + and country code'')\<rparr>, st)
              else if cleanNumber \<in> set (phone_numbers (service_of settings service))
              then (\<lparr>success = False, error = Some (str ''Phone number already exists'')\<rparr>, st)
              else updateEmergencySmsSettings update_error
                     (with_service settings service
                        ((service_of settings service)
                           \<lparr>phone_numbers := phone_numbers (service_of settings service) @ [cleanNumber]\<rparr>))
                     st))"

text \<open>
  \<open>well_formed_number\<close> is the format check the action passes, and \<open>push_number\<close> the
  settings after \<open>settings[service].phone_numbers.push(cleanNumber)\<close>.
\<close>

definition well_formed_number :: "jsstring \<Rightarrow> bool" where
  "well_formed_number n \<longleftrightarrow> startsWith n (str ''+'') \<and> 10 \<le> length n"

definition push_number :: "EmergencySmsSettings \<Rightarrow> ServiceType \<Rightarrow> jsstring \<Rightarrow> EmergencySmsSettings" where
  "push_number settings service n =
     with_service settings service
       ((service_of settings service)\<lparr>phone_numbers := phone_numbers (service_of settings service) @ [n]\<rparr>)"

section \<open>The flow endpoint's Crypto Transport: AES-128-GCM\<close>

text \<open>
  Modelled from the spec: the flow endpoint's Crypto Transport (spec section 4.1; the
  backend's Python sources) is not among the source files, only the backend's README,
  which says the response is "encrypted with same AES key but flipped IV". The spec names
  the cipher, AES-128-GCM with a 16-byte tag. The block cipher follows FIPS 197 and the
  mode NIST SP 800-38D; byte strings are lists of 8-bit words.
\<close>

type_synonym byte = "8 word"
type_synonym bytes = "byte list"

definition xor_bytes :: "bytes \<Rightarrow> bytes \<Rightarrow> bytes" where
  "xor_bytes a b = map2 (XOR) a b"

text \<open>
  Modelled from the spec: the AES S-box (FIPS 197, figure 7), indexed by the byte's value,
  and multiplication by \<open>x\<close> in GF(2^8) modulo \<open>x^8 + x^4 + x^3 + x + 1\<close>.
\<close>

definition sbox :: bytes where
  "sbox =
     [0x63, 0x7C, 0x77, 0x7B, 0xF2, 0x6B, 0x6F, 0xC5, 0x30, 0x01, 0x67, 0x2B, 0xFE, 0xD7, 0xAB, 0x76,
      0xCA, 0x82, 0xC9, 0x7D, 0xFA, 0x59, 0x47, 0xF0, 0xAD, 0xD4, 0xA2, 0xAF, 0x9C, 0xA4, 0x72, 0xC0,
      0xB7, 0xFD, 0x93, 0x26, 0x36, 0x3F, 0xF7, 0xCC, 0x34, 0xA5, 0xE5, 0xF1, 0x71, 0xD8, 0x31, 0x15,
      0x04, 0xC7, 0x23, 0xC3, 0x18, 0x96, 0x05, 0x9A, 0x07, 0x12, 0x80, 0xE2, 0xEB, 0x27, 0xB2, 0x75,
      0x09, 0x83, 0x2C, 0x1A, 0x1B, 0x6E, 0x5A, 0xA0, 0x52, 0x3B, 0xD6, 0xB3, 0x29, 0xE3, 0x2F, 0x84,
      0x53, 0xD1, 0x00, 0xED, 0x20, 0xFC, 0xB1, 0x5B, 0x6A, 0xCB, 0xBE, 0x39, 0x4A, 0x4C, 0x58, 0xCF,
      0xD0, 0xEF, 0xAA, 0xFB, 0x43, 0x4D, 0x33, 0x85, 0x45, 0xF9, 0x02, 0x7F, 0x50, 0x3C, 0x9F, 0xA8,
      0x51, 0xA3, 0x40, 0x8F, 0x92, 0x9D, 0x38, 0xF5, 0xBC, 0xB6, 0xDA, 0x21, 0x10, 0xFF, 0xF3, 0xD2,
      0xCD, 0x0C, 0x13, 0xEC, 0x5F, 0x97, 0x44, 0x17, 0xC4, 0xA7, 0x7E, 0x3D, 0x64, 0x5D, 0x19, 0x73,
      0x60, 0x81, 0x4F, 0xDC, 0x22, 0x2A, 0x90, 0x88, 0x46, 0xEE, 0xB8, 0x14, 0xDE, 0x5E, 0x0B, 0xDB,
      0xE0, 0x32, 0x3A, 0x0A, 0x49, 0x06, 0x24, 0x5C, 0xC2, 0xD3, 0xAC, 0x62, 0x91, 0x95, 0xE4, 0x79,
      0xE7, 0xC8, 0x37, 0x6D, 0x8D, 0xD5, 0x4E, 0xA9, 0x6C, 0x56, 0xF4, 0xEA, 0x65, 0x7A, 0xAE, 0x08,
      0xBA, 0x78, 0x25, 0x2E, 0x1C, 0xA6, 0xB4, 0xC6, 0xE8, 0xDD, 0x74, 0x1F, 0x4B, 0xBD, 0x8B, 0x8A,
      0x70, 0x3E, 0xB5, 0x66, 0x48, 0x03, 0xF6, 0x0E, 0x61, 0x35, 0x57, 0xB9, 0x86, 0xC1, 0x1D, 0x9E,
      0xE1, 0xF8, 0x98, 0x11, 0x69, 0xD9, 0x8E, 0x94, 0x9B, 0x1E, 0x87, 0xE9, 0xCE, 0x55, 0x28, 0xDF,
      0x8C, 0xA1, 0x89, 0x0D, 0xBF, 0xE6, 0x42, 0x68, 0x41, 0x99, 0x2D, 0x0F, 0xB0, 0x54, 0xBB, 0x16]"

definition sub_byte :: "byte \<Rightarrow> byte" where
  "sub_byte b = sbox ! unat b"

definition xtime :: "byte \<Rightarrow> byte" where
  "xtime b = (if b AND 0x80 = 0 then push_bit 1 b else push_bit 1 b XOR 0x1B)"

text \<open>
  Modelled from the spec: the four round transformations of AES. The state is the 16 input
  bytes in order, that is column by column: byte \<open>r + 4 * c\<close> is row \<open>r\<close> of column
  \<open>c\<close>. \<open>shift_rows\<close> rotates row \<open>r\<close> left by \<open>r\<close> columns.
\<close>

definition sub_bytes :: "bytes \<Rightarrow> bytes" where
  "sub_bytes s = map sub_byte s"

definition shift_rows :: "bytes \<Rightarrow> bytes" where
  "shift_rows s = map (\<lambda>i. s ! ((i + 4 * (i mod 4)) mod 16)) [0..<16]"

definition mix_column :: "byte \<Rightarrow> byte \<Rightarrow> byte \<Rightarrow> byte \<Rightarrow> bytes" where
  "mix_column a0 a1 a2 a3 =
     [xtime a0 XOR (xtime a1 XOR a1) XOR a2 XOR a3,
      a0 XOR xtime a1 XOR (xtime a2 XOR a2) XOR a3,
      a0 XOR a1 XOR xtime a2 XOR (xtime a3 XOR a3),
      (xtime a0 XOR a0) XOR a1 XOR a2 XOR xtime a3]"

definition mix_columns :: "bytes \<Rightarrow> bytes" where
  "mix_columns s =
     concat (map (\<lambda>c. mix_column (s ! (4 * c)) (s ! (4 * c + 1)) (s ! (4 * c + 2)) (s ! (4 * c + 3)))
               [0..<4])"

definition add_round_key :: "bytes \<Rightarrow> bytes \<Rightarrow> bytes" where
  "add_round_key s k = xor_bytes s k"

text \<open>
  Modelled from the spec: the AES-128 key expansion, one 16-byte round key from the
  previous one; \<open>round_key key i\<close> is the key of round \<open>i\<close> (0 to 10).
\<close>

definition rcon :: bytes where
  "rcon = [0x01, 0x02, 0x04, 0x08, 0x10, 0x20, 0x40, 0x80, 0x1B, 0x36]"

definition key_word :: "bytes \<Rightarrow> nat \<Rightarrow> bytes" where
  "key_word k i = map (\<lambda>j. k ! (4 * i + j)) [0..<4]"

definition next_round_key :: "bytes \<Rightarrow> byte \<Rightarrow> bytes" where
  "next_round_key k rc =
     (let t = xor_bytes (map sub_byte (rotate1 (key_word k 3))) [rc, 0, 0, 0];
          w0 = xor_bytes (key_word k 0) t;
          w1 = xor_bytes (key_word k 1) w0;
          w2 = xor_bytes (key_word k 2) w1;
          w3 = xor_bytes (key_word k 3) w2
      in w0 @ w1 @ w2 @ w3)"

fun round_key :: "bytes \<Rightarrow> nat \<Rightarrow> bytes" where
  "round_key key 0 = key"
| "round_key key (Suc i) = next_round_key (round_key key i) (rcon ! i)"

text \<open>
  Modelled from the spec: the AES-128 cipher on one block: the initial key addition, nine
  full rounds, and the final round without \<open>mix_columns\<close>.
\<close>

definition aes_round :: "bytes \<Rightarrow> nat \<Rightarrow> bytes \<Rightarrow> bytes" where
  "aes_round key i s = add_round_key (mix_columns (shift_rows (sub_bytes s))) (round_key key i)"

definition aes128_encrypt_block :: "bytes \<Rightarrow> bytes \<Rightarrow> bytes" where
  "aes128_encrypt_block key block =
     (let s0 = add_round_key block (round_key key 0);
          s9 = fold (aes_round key) [1..<10] s0
      in add_round_key (shift_rows (sub_bytes s9)) (round_key key 10))"

text \<open>
  Modelled from the spec: GCM's 128-bit blocks as words, the first byte of a block being
  the most significant one. \<open>block_of_bytes\<close> pads a short last block with zero bytes
  on the right, as GHASH's input is padded.
\<close>

type_synonym block = "128 word"

definition block_of_bytes :: "bytes \<Rightarrow> block" where
  "block_of_bytes bs =
     foldl (\<lambda>acc b. push_bit 8 acc OR ucast b) 0 (take 16 (bs @ replicate 16 0))"

definition bytes_of_block :: "block \<Rightarrow> bytes" where
  "bytes_of_block w = map (\<lambda>i. ucast (drop_bit (8 * (15 - i)) w)) [0..<16]"

text \<open>
  Modelled from the spec: multiplication in GF(2^128) as SP 800-38D gives it (algorithm 1):
  bit \<open>i\<close> of \<open>x\<close> counted from the left selects \<open>v\<close>, and \<open>v\<close> moves right, reduced by
  \<open>R = 11100001 || 0^120\<close>. \<open>ghash\<close> folds the blocks of a byte string into the hash,
  starting from \<open>y\<close>; \<open>length_block\<close> is the final block of the two bit lengths.
\<close>

definition gf128_step :: "block \<Rightarrow> nat \<Rightarrow> block \<times> block \<Rightarrow> block \<times> block" where
  "gf128_step x i zv =
     (let (z, v) = zv;
          z' = (if bit x (127 - i) then z XOR v else z);
          v' = (if bit v 0 then drop_bit 1 v XOR push_bit 120 0xE1 else drop_bit 1 v)
      in (z', v'))"

definition gf128_mul :: "block \<Rightarrow> block \<Rightarrow> block" where
  "gf128_mul x y = fst (fold (gf128_step x) [0..<128] (0, y))"

function ghash :: "block \<Rightarrow> block \<Rightarrow> bytes \<Rightarrow> block" where
  "ghash h y bs =
     (if bs = [] then y
      else ghash h (gf128_mul (y XOR block_of_bytes (take 16 bs)) h) (drop 16 bs))"
  by pat_completeness auto
termination
  by (relation "measure (\<lambda>(h, y, bs). length bs)") auto

declare ghash.simps [simp del]

definition length_block :: "nat \<Rightarrow> nat \<Rightarrow> block" where
  "length_block a c = push_bit 64 (of_nat (8 * a)) OR of_nat (8 * c)"

text \<open>
  Modelled from the spec: the counter mode of GCM. \<open>inc32\<close> increments the last 32 bits
  of the counter block; \<open>gctr\<close> adds the key stream to the input block by block, the
  last block possibly short.
\<close>

definition inc32 :: "block \<Rightarrow> block" where
  "inc32 cb = (cb AND NOT 0xFFFFFFFF) OR ((cb + 1) AND 0xFFFFFFFF)"

function gctr :: "bytes \<Rightarrow> block \<Rightarrow> bytes \<Rightarrow> bytes" where
  "gctr key cb x =
     (if x = [] then []
      else xor_bytes (take 16 x) (aes128_encrypt_block key (bytes_of_block cb))
           @ gctr key (inc32 cb) (drop 16 x))"
  by pat_completeness auto
termination
  by (relation "measure (\<lambda>(key, cb, x). length x)") auto

declare gctr.simps [simp del]

text \<open>
  Modelled from the spec: authenticated encryption and decryption of GCM with a 128-bit
  tag. The pre-counter block of a 96-bit IV is \<open>IV || 0^31 || 1\<close>; of any other IV, such
  as the flow's 16 bytes, it is the GHASH of the padded IV and its bit length.
  \<open>gcm_decrypt\<close> returns nothing at all unless the tag it recomputes equals the one given.
\<close>

definition hash_subkey :: "bytes \<Rightarrow> block" where
  "hash_subkey key = block_of_bytes (aes128_encrypt_block key (replicate 16 0))"

definition pre_counter_block :: "bytes \<Rightarrow> bytes \<Rightarrow> block" where
  "pre_counter_block key iv =
     (if length iv = 12 then block_of_bytes (iv @ [0, 0, 0, 1])
      else (let h = hash_subkey key
            in gf128_mul (ghash h 0 iv XOR length_block 0 (length iv)) h))"

definition gcm_tag :: "bytes \<Rightarrow> bytes \<Rightarrow> bytes \<Rightarrow> bytes \<Rightarrow> bytes" where
  "gcm_tag key iv aad c =
     (let h = hash_subkey key;
          s = gf128_mul (ghash h (ghash h 0 aad) c XOR length_block (length aad) (length c)) h
      in gctr key (pre_counter_block key iv) (bytes_of_block s))"

definition gcm_encrypt :: "bytes \<Rightarrow> bytes \<Rightarrow> bytes \<Rightarrow> bytes \<Rightarrow> bytes \<times> bytes" where
  "gcm_encrypt key iv p aad =
     (let c = gctr key (inc32 (pre_counter_block key iv)) p
      in (c, gcm_tag key iv aad c))"

definition gcm_decrypt :: "bytes \<Rightarrow> bytes \<Rightarrow> bytes \<Rightarrow> bytes \<Rightarrow> bytes \<Rightarrow> bytes option" where
  "gcm_decrypt key iv c aad t =
     (if gcm_tag key iv aad c = t
      then Some (gctr key (inc32 (pre_counter_block key iv)) c)
      else None)"

text \<open>
  Modelled from the spec: the response IV, "flipping every bit of the request's initial
  vector (bytewise complement, not simple byte reversal)".
\<close>

definition flip_iv :: "bytes \<Rightarrow> bytes" where
  "flip_iv iv = map NOT iv"

text \<open>
  Modelled from the spec: \<open>encrypt(plaintext_bytes, symmetric_key, request_iv)\<close>
  "AES-128-GCM-encrypts the plaintext with that derived IV and the same symmetric key
  recovered from the request, appending the tag to the ciphertext". The flow uses no
  additional authenticated data.
\<close>

definition encrypt :: "bytes \<Rightarrow> bytes \<Rightarrow> bytes \<Rightarrow> bytes" where
  "encrypt plaintext_bytes symmetric_key request_iv =
     (let (c, t) = gcm_encrypt symmetric_key (flip_iv request_iv) plaintext_bytes []
      in c @ t)"

text \<open>
  Modelled from the spec: the failures of \<open>decrypt\<close>, and its symmetric half: it
  "decrypts \<open>encrypted_flow_data\<close> as AES-128-GCM where the final 16 bytes of the
  ciphertext are the authentication tag; fails with \<open>AuthenticationError\<close> on tag
  mismatch".
\<close>

datatype transport_error = KeyUnwrapError | AuthenticationError

definition aes_gcm_decrypt :: "bytes \<Rightarrow> bytes \<Rightarrow> bytes \<Rightarrow> transport_error + bytes" where
  "aes_gcm_decrypt symmetric_key iv data =
     (if length data < 16 then Inl AuthenticationError
      else (case gcm_decrypt symmetric_key iv (take (length data - 16) data) []
                   (drop (length data - 16) data) of
              None \<Rightarrow> Inl AuthenticationError
            | Some p \<Rightarrow> Inr p))"

text \<open>
  Modelled from the spec: the inbound envelope with its three fields decoded, and
  \<open>decrypt(envelope) -> (plaintext_bytes, symmetric_key)\<close>. The RSA-OAEP unwrapping with
  the service's private key is the parameter \<open>rsa_oaep_unwrap\<close> (\<open>None\<close> when the unwrap
  fails); a recovered key that is not exactly 16 bytes is a \<open>KeyUnwrapError\<close>.
\<close>

record EncryptedEnvelope =
  encrypted_flow_data :: bytes
  encrypted_aes_key :: bytes
  initial_vector :: bytes

definition decrypt ::
  "(bytes \<Rightarrow> bytes option) \<Rightarrow> EncryptedEnvelope \<Rightarrow> transport_error + (bytes \<times> bytes)" where
  "decrypt rsa_oaep_unwrap envelope =
     (case rsa_oaep_unwrap (encrypted_aes_key envelope) of
        None \<Rightarrow> Inl KeyUnwrapError
      | Some symmetric_key \<Rightarrow>
          if length symmetric_key \<noteq> 16 then Inl KeyUnwrapError
          else (case aes_gcm_decrypt symmetric_key (initial_vector envelope)
                       (encrypted_flow_data envelope) of
                  Inl e \<Rightarrow> Inl e
                | Inr plaintext_bytes \<Rightarrow> Inr (plaintext_bytes, symmetric_key)))"

section \<open>Concrete inputs\<close>

text \<open>An incidents table with one row, for the example of \<open>updateIncidentStatus\<close>.\<close>

definition example_db :: database where
  "example_db = \<lparr>incidents = [str ''inc-1'' \<mapsto>
      [''status'' \<mapsto> JString (str ''verified''), ''emergency_type'' \<mapsto> JString (str ''medical'')]]\<rparr>"

text \<open>A settings store whose dispatch list holds one number, for \<open>addServiceNumber\<close>.\<close>

definition example_settings :: EmergencySmsSettings where
  "example_settings =
     \<lparr>all_enabled = True,
      dispatch = \<lparr>enabled = True, phone_numbers = [str ''+263771234567'']\<rparr>,
      ambulance = \<lparr>enabled = True, phone_numbers = []\<rparr>,
      police = \<lparr>enabled = False, phone_numbers = []\<rparr>,
      fire_brigade = \<lparr>enabled = False, phone_numbers = []\<rparr>\<rparr>"

definition example_store :: settings_store where
  "example_store = \<lparr>setting_row = Some example_settings, update_log = []\<rparr>"

text \<open>A key, a request IV and a response body for the transport.\<close>

definition example_key :: bytes where
  "example_key = [0x00, 0x01, 0x02, 0x03, 0x04, 0x05, 0x06, 0x07,
                  0x08, 0x09, 0x0A, 0x0B, 0x0C, 0x0D, 0x0E, 0x0F]"

definition example_iv :: bytes where
  "example_iv = [0x10, 0x32, 0x54, 0x76, 0x98, 0xBA, 0xDC, 0xFE,
                 0x01, 0x23, 0x45, 0x67, 0x89, 0xAB, 0xCD, 0xEF]"

definition example_plaintext :: bytes where
  "example_plaintext = map of_char ''{\"version\":\"3.0\",\"data\":{\"status\":\"active\"}}''"

section \<open>Properties of \<open>updateIncidentStatus\<close>\<close>

lemma str_distinct:
  "str ''dispatched'' \<noteq> str ''arrived''"
  "str ''dispatched'' \<noteq> str ''completed''"
  "str ''arrived'' \<noteq> str ''completed''"
  by (simp_all add: str_def)

lemma dom_updateData:
  "dom (updateData status notes now0 now1) =
     {''status'', ''updated_at''}
     \<union> (if status = str ''dispatched'' then {''dispatched_at''} else {})
     \<union> (if status = str ''arrived'' then {''arrived_at''} else {})
     \<union> (if status = str ''completed'' then {''completed_at''} else {})
     \<union> (if status = str ''completed'' \<and> truthy notes then {''completion_notes''} else {})
     \<union> (if truthy notes \<and> status \<noteq> str ''completed'' then {''incident_notes''} else {})"
  using str_distinct
  by (auto simp: updateData_def Let_def truthy_def split: option.splits if_splits)

lemma updateData_status:
  "updateData status notes now0 now1 ''status'' = Some (JString status)"
  by (simp add: updateData_def Let_def split: option.splits)

lemma supabase_update_other_row:
  "ident' \<noteq> ident \<Longrightarrow> incidents (supabase_update u ident db) ident' = incidents db ident'"
  by (simp add: supabase_update_def split: option.splits)

lemma supabase_update_row:
  "incidents (supabase_update u ident db) ident = map_option (\<lambda>r. r ++ u) (incidents db ident)"
  by (simp add: supabase_update_def split: option.splits)

text \<open>
  Claim C10. For every incident id, status and optional notes, \<open>updateIncidentStatus\<close>
  writes only \<open>status\<close>, \<open>updated_at\<close> and the fields its conditions select:
  \<open>dispatched_at\<close> exactly when the status is "dispatched", \<open>arrived_at\<close> exactly when
  it is "arrived", \<open>completed_at\<close> exactly when it is "completed" (with
  \<open>completion_notes\<close> when, besides, notes were given), so at most one of these three
  status-specific groups; and \<open>incident_notes\<close> exactly when notes were given and the
  status is not "completed". "Notes were given" is the source's test \<open>if (notes)\<close>: the
  argument is present and not empty. No row is added or removed, no other row changes,
  and every other column of the row keeps its value.
\<close>

theorem updateIncidentStatus_writes_only:
  "(let u = updateData status notes now0 now1;
        db' = snd (updateIncidentStatus db_error ident status notes now0 now1 db)
    in {''status'', ''updated_at''} \<subseteq> dom u
       \<and> dom u \<subseteq> {''status'', ''updated_at'', ''dispatched_at'', ''arrived_at'',
                   ''completed_at'', ''completion_notes'', ''incident_notes''}
       \<and> (''dispatched_at'' \<in> dom u \<longleftrightarrow> status = str ''dispatched'')
       \<and> (''arrived_at'' \<in> dom u \<longleftrightarrow> status = str ''arrived'')
       \<and> (''completed_at'' \<in> dom u \<longleftrightarrow> status = str ''completed'')
       \<and> (''completion_notes'' \<in> dom u \<longleftrightarrow> status = str ''completed'' \<and> truthy notes)
       \<and> (''incident_notes'' \<in> dom u \<longleftrightarrow> truthy notes \<and> status \<noteq> str ''completed'')
       \<and> \<not> (''dispatched_at'' \<in> dom u \<and> ''arrived_at'' \<in> dom u)
       \<and> \<not> (''dispatched_at'' \<in> dom u \<and> (''completed_at'' \<in> dom u \<or> ''completion_notes'' \<in> dom u))
       \<and> \<not> (''arrived_at'' \<in> dom u \<and> (''completed_at'' \<in> dom u \<or> ''completion_notes'' \<in> dom u))
       \<and> dom (incidents db') = dom (incidents db)
       \<and> (\<forall>ident' r r' col.
             incidents db ident' = Some r \<longrightarrow> incidents db' ident' = Some r' \<longrightarrow>
             (ident' \<noteq> ident \<or> col \<notin> dom u) \<longrightarrow> r' col = r col))"
proof -
  let ?u = "updateData status notes now0 now1"
  let ?db' = "snd (updateIncidentStatus db_error ident status notes now0 now1 db)"
  have written: "{''status'', ''updated_at''} \<subseteq> dom ?u"
    and allowed: "dom ?u \<subseteq> {''status'', ''updated_at'', ''dispatched_at'', ''arrived_at'',
                   ''completed_at'', ''completion_notes'', ''incident_notes''}"
    by (simp_all add: dom_updateData)
  have groups:
    "''dispatched_at'' \<in> dom ?u \<longleftrightarrow> status = str ''dispatched''"
    "''arrived_at'' \<in> dom ?u \<longleftrightarrow> status = str ''arrived''"
    "''completed_at'' \<in> dom ?u \<longleftrightarrow> status = str ''completed''"
    "''completion_notes'' \<in> dom ?u \<longleftrightarrow> status = str ''completed'' \<and> truthy notes"
    "''incident_notes'' \<in> dom ?u \<longleftrightarrow> truthy notes \<and> status \<noteq> str ''completed''"
    by (simp_all add: dom_updateData)
  have exclusive:
    "\<not> (''dispatched_at'' \<in> dom ?u \<and> ''arrived_at'' \<in> dom ?u)"
    "\<not> (''dispatched_at'' \<in> dom ?u \<and> (''completed_at'' \<in> dom ?u \<or> ''completion_notes'' \<in> dom ?u))"
    "\<not> (''arrived_at'' \<in> dom ?u \<and> (''completed_at'' \<in> dom ?u \<or> ''completion_notes'' \<in> dom ?u))"
    unfolding groups using str_distinct by auto
  have rows: "dom (incidents ?db') = dom (incidents db)"
    by (auto simp: updateIncidentStatus_def supabase_update_def split: option.splits if_splits)
  have frame: "r' col = r col"
    if "incidents db ident' = Some r" "incidents ?db' ident' = Some r'"
       "ident' \<noteq> ident \<or> col \<notin> dom ?u" for ident' r r' col
  proof (cases db_error)
    case (Some msg)
    with that show ?thesis by (simp add: updateIncidentStatus_def)
  next
    case None
    show ?thesis
    proof (cases "ident' = ident")
      case True
      with that None have "r' = r ++ ?u" and "col \<notin> dom ?u"
        by (auto simp: updateIncidentStatus_def supabase_update_row)
      then show ?thesis by (simp add: map_add_dom_app_simps)
    next
      case False
      with that None show ?thesis
        by (simp add: updateIncidentStatus_def supabase_update_other_row)
    qed
  qed
  show ?thesis
    unfolding Let_def using written allowed groups exclusive rows frame by blast
qed

text \<open>
  The theorem at a concrete call: an incident marked "dispatched" with notes gets
  \<open>dispatched_at\<close> and \<open>incident_notes\<close>, no \<open>arrived_at\<close>, and keeps its
  \<open>emergency_type\<close>.
\<close>

theorem updateIncidentStatus_writes_only_witness:
  "dom (updateData (str ''dispatched'') (Some (str ''crew 7'')) (str ''t0'') (str ''t1''))
     = {''status'', ''updated_at'', ''dispatched_at'', ''incident_notes''}
   \<and> ''arrived_at'' \<notin> dom (updateData (str ''dispatched'') (Some (str ''crew 7'')) (str ''t0'') (str ''t1''))
   \<and> (\<exists>r'. incidents (snd (updateIncidentStatus None (str ''inc-1'') (str ''dispatched'')
               (Some (str ''crew 7'')) (str ''t0'') (str ''t1'') example_db)) (str ''inc-1'') = Some r'
          \<and> r' ''emergency_type'' = Some (JString (str ''medical''))
          \<and> r' ''status'' = Some (JString (str ''dispatched'')))"
proof -
  let ?u = "updateData (str ''dispatched'') (Some (str ''crew 7'')) (str ''t0'') (str ''t1'')"
  let ?db' = "snd (updateIncidentStatus None (str ''inc-1'') (str ''dispatched'')
               (Some (str ''crew 7'')) (str ''t0'') (str ''t1'') example_db)"
  note T = updateIncidentStatus_writes_only [of "str ''dispatched''" "Some (str ''crew 7'')"
      "str ''t0''" "str ''t1''" None "str ''inc-1''" example_db, unfolded Let_def]
  have tr: "truthy (Some (str ''crew 7''))" by (simp add: truthy_def str_def)
  have d: "dom ?u = {''status'', ''updated_at'', ''dispatched_at'', ''incident_notes''}"
    using T tr str_distinct by (auto simp: dom_updateData)
  have a: "''arrived_at'' \<notin> dom ?u" using T str_distinct by blast
  have r0: "incidents example_db (str ''inc-1'') = Some
      [''status'' \<mapsto> JString (str ''verified''), ''emergency_type'' \<mapsto> JString (str ''medical'')]"
    by (simp add: example_db_def)
  have "str ''inc-1'' \<in> dom (incidents ?db')" using T r0 by blast
  then obtain r' where r': "incidents ?db' (str ''inc-1'') = Some r'" by blast
  have "''emergency_type'' \<notin> dom ?u" using d by simp
  then have "r' ''emergency_type'' =
      [''status'' \<mapsto> JString (str ''verified''), ''emergency_type'' \<mapsto> JString (str ''medical'')] ''emergency_type''"
    using T r0 r' by blast
  then have e: "r' ''emergency_type'' = Some (JString (str ''medical''))" by simp
  have "r' = [''status'' \<mapsto> JString (str ''verified''), ''emergency_type'' \<mapsto> JString (str ''medical'')] ++ ?u"
    using r' r0 by (simp add: updateIncidentStatus_def supabase_update_row)
  then have s: "r' ''status'' = Some (JString (str ''dispatched''))"
    by (simp only: map_add_find_right updateData_status)
  from d a r' e s show ?thesis by blast
qed

section \<open>Properties of \<open>addServiceNumber\<close>\<close>

lemma addServiceNumber_cases:
  "addServiceNumber select_error update_error service phoneNumber st =
     (case getEmergencySmsSettings select_error st of
        None \<Rightarrow> (\<lparr>success = False, error = Some (str ''Failed to fetch current settings'')\<rparr>, st)
      | Some settings \<Rightarrow>
          if \<not> well_formed_number (trim phoneNumber)
          then (\<lparr>success = False,
                 error = Some (str ''Phone number must start with + and country code'')\<rparr>, st)
          else if trim phoneNumber \<in> set (phone_numbers (service_of settings service))
          then (\<lparr>success = False, error = Some (str ''Phone number already exists'')\<rparr>, st)
          else updateEmergencySmsSettings update_error
                 (push_number settings service (trim phoneNumber)) st)"
  by (auto simp: addServiceNumber_def well_formed_number_def push_number_def Let_def
           split: option.splits)

lemma update_log_updateEmergencySmsSettings:
  "update_log (snd (updateEmergencySmsSettings update_error settings st)) = update_log st @ [settings]"
  by (simp add: updateEmergencySmsSettings_def Let_def split: option.splits)

text \<open>
  Claim C9. For every service and phone number, \<open>addServiceNumber\<close> returns
  \<open>success: false\<close> and leaves the store as it was (no update statement is sent)
  whenever the trimmed number does not start with "+" or is shorter than 10 code units,
  and whenever the trimmed number is already in that service's \<open>phone_numbers\<close>. An
  update statement is sent only for a new, well-formed number, and then it carries the
  fetched settings with the trimmed number appended to that service's list; for such a
  number the action's result is that of the update.
\<close>

theorem addServiceNumber_rejects:
  "(let r = addServiceNumber select_error update_error service phoneNumber st;
        cleanNumber = trim phoneNumber
    in (\<not> startsWith cleanNumber (str ''+'') \<or> length cleanNumber < 10
          \<longrightarrow> \<not> success (fst r) \<and> snd r = st)
       \<and> (\<forall>settings. setting_row st = Some settings
             \<and> cleanNumber \<in> set (phone_numbers (service_of settings service))
          \<longrightarrow> \<not> success (fst r) \<and> snd r = st)
       \<and> (update_log (snd r) \<noteq> update_log st
          \<longrightarrow> (\<exists>settings. getEmergencySmsSettings select_error st = Some settings
                 \<and> startsWith cleanNumber (str ''+'') \<and> 10 \<le> length cleanNumber
                 \<and> cleanNumber \<notin> set (phone_numbers (service_of settings service))
                 \<and> update_log (snd r) = update_log st @ [push_number settings service cleanNumber]))
       \<and> (\<forall>settings. getEmergencySmsSettings select_error st = Some settings
             \<and> startsWith cleanNumber (str ''+'') \<and> 10 \<le> length cleanNumber
             \<and> cleanNumber \<notin> set (phone_numbers (service_of settings service))
          \<longrightarrow> r = updateEmergencySmsSettings update_error
                    (push_number settings service cleanNumber) st))"
proof -
  let ?r = "addServiceNumber select_error update_error service phoneNumber st"
  let ?n = "trim phoneNumber"
  have malformed: "\<not> success (fst ?r) \<and> snd ?r = st"
    if "\<not> startsWith ?n (str ''+'') \<or> length ?n < 10"
    using that by (auto simp: addServiceNumber_cases well_formed_number_def split: option.splits)
  have duplicate: "\<not> success (fst ?r) \<and> snd ?r = st"
    if "setting_row st = Some settings \<and> ?n \<in> set (phone_numbers (service_of settings service))"
    for settings
    using that
    by (auto simp: addServiceNumber_cases getEmergencySmsSettings_def split: option.splits)
  have attempted: "\<exists>settings. getEmergencySmsSettings select_error st = Some settings
                 \<and> startsWith ?n (str ''+'') \<and> 10 \<le> length ?n
                 \<and> ?n \<notin> set (phone_numbers (service_of settings service))
                 \<and> update_log (snd ?r) = update_log st @ [push_number settings service ?n]"
    if "update_log (snd ?r) \<noteq> update_log st"
    using that
    by (auto simp: addServiceNumber_cases well_formed_number_def
          update_log_updateEmergencySmsSettings split: option.splits if_splits)
  have fresh: "?r = updateEmergencySmsSettings update_error (push_number settings service ?n) st"
    if "getEmergencySmsSettings select_error st = Some settings
          \<and> startsWith ?n (str ''+'') \<and> 10 \<le> length ?n
          \<and> ?n \<notin> set (phone_numbers (service_of settings service))"
    for settings
    using that by (simp add: addServiceNumber_cases well_formed_number_def)
  show ?thesis
    unfolding Let_def using malformed duplicate attempted fresh by blast
qed

text \<open>
  The theorem at three concrete calls on a store whose dispatch list holds
  +263771234567: a number without "+" and a number already stored are rejected and
  leave the store unchanged, and a new number for the police list goes to the update.
\<close>

lemma trim_examples:
  "trim (str '' 0771234567 '') = str ''0771234567''"
  "trim (str ''+263771234567  '') = str ''+263771234567''"
  "trim (str '' +263771234567'') = str ''+263771234567''"
  by (simp_all add: trim_def str_def is_js_whitespace_def)

theorem addServiceNumber_rejects_witness:
  "\<not> success (fst (addServiceNumber False None Dispatch (str '' 0771234567 '') example_store))
   \<and> snd (addServiceNumber False None Dispatch (str '' 0771234567 '') example_store) = example_store
   \<and> \<not> success (fst (addServiceNumber False None Dispatch (str ''+263771234567  '') example_store))
   \<and> snd (addServiceNumber False None Dispatch (str ''+263771234567  '') example_store) = example_store
   \<and> addServiceNumber False None Police (str '' +263771234567'') example_store
       = updateEmergencySmsSettings None
           (push_number example_settings Police (str ''+263771234567'')) example_store"
proof -
  have row: "setting_row example_store = Some example_settings"
    and got: "getEmergencySmsSettings False example_store = Some example_settings"
    by (simp_all add: example_store_def getEmergencySmsSettings_def)
  have no_plus: "\<not> startsWith (trim (str '' 0771234567 '')) (str ''+'')"
    by (simp add: trim_examples) (simp add: startsWith_def str_def)
  have dup: "trim (str ''+263771234567  '')
               \<in> set (phone_numbers (service_of example_settings Dispatch))"
    by (simp add: trim_examples example_settings_def)
  have new: "startsWith (trim (str '' +263771234567'')) (str ''+'')
             \<and> 10 \<le> length (trim (str '' +263771234567''))
             \<and> trim (str '' +263771234567'')
                  \<notin> set (phone_numbers (service_of example_settings Police))"
    by (simp add: trim_examples example_settings_def) (simp add: startsWith_def str_def)
  from no_plus
    addServiceNumber_rejects [of False None Dispatch "str '' 0771234567 ''" example_store,
      unfolded Let_def]
  have a: "\<not> success (fst (addServiceNumber False None Dispatch (str '' 0771234567 '') example_store))
     \<and> snd (addServiceNumber False None Dispatch (str '' 0771234567 '') example_store) = example_store"
    by blast
  from row dup
    addServiceNumber_rejects [of False None Dispatch "str ''+263771234567  ''" example_store,
      unfolded Let_def]
  have b: "\<not> success (fst (addServiceNumber False None Dispatch (str ''+263771234567  '') example_store))
     \<and> snd (addServiceNumber False None Dispatch (str ''+263771234567  '') example_store) = example_store"
    by blast
  from got new
    addServiceNumber_rejects [of False None Police "str '' +263771234567''" example_store,
      unfolded Let_def]
  have "addServiceNumber False None Police (str '' +263771234567'') example_store
       = updateEmergencySmsSettings None
           (push_number example_settings Police (trim (str '' +263771234567''))) example_store"
    by blast
  then have c: "addServiceNumber False None Police (str '' +263771234567'') example_store
       = updateEmergencySmsSettings None
           (push_number example_settings Police (str ''+263771234567'')) example_store"
    by (simp only: trim_examples)
  from a b c show ?thesis by blast
qed

section \<open>Properties of the Crypto Transport\<close>

text \<open>Lengths: every AES-128 output block, key stream and tag has the size the mode needs.\<close>

lemma length_xor_bytes: "length (xor_bytes a b) = min (length a) (length b)"
  by (simp add: xor_bytes_def)

lemma xor_bytes_cancel: "length a \<le> length b \<Longrightarrow> xor_bytes (xor_bytes a b) b = a"
proof (induction a arbitrary: b)
  case Nil
  then show ?case by (simp add: xor_bytes_def)
next
  case (Cons x a)
  then obtain y b' where b: "b = y # b'" by (cases b) auto
  with Cons.prems have "length a \<le> length b'" by simp
  with Cons.IH have "xor_bytes (xor_bytes a b') b' = a" .
  then show ?case by (simp add: b xor_bytes_def xor.assoc)
qed

lemma length_key_word: "length (key_word k i) = 4"
  by (simp add: key_word_def)

lemma length_next_round_key: "length (next_round_key k rc) = 16"
  by (simp add: next_round_key_def Let_def length_xor_bytes length_key_word)

lemma length_round_key_Suc: "length (round_key key (Suc i)) = 16"
  by (simp add: length_next_round_key)

lemma length_shift_rows: "length (shift_rows s) = 16"
  by (simp add: shift_rows_def)

lemma length_aes128_encrypt_block: "length (aes128_encrypt_block key block) = 16"
proof -
  have "length (round_key key 10) = 16"
    using length_round_key_Suc [of key 9] by simp
  then show ?thesis
    by (simp add: aes128_encrypt_block_def Let_def add_round_key_def length_xor_bytes
          length_shift_rows)
qed

text \<open>
  The block cipher on the example vector of FIPS 197, appendix C.1, computed from the
  definitions above.
\<close>

lemma aes128_fips197_example:
  "aes128_encrypt_block
     [0x00, 0x01, 0x02, 0x03, 0x04, 0x05, 0x06, 0x07, 0x08, 0x09, 0x0A, 0x0B, 0x0C, 0x0D, 0x0E, 0x0F]
     [0x00, 0x11, 0x22, 0x33, 0x44, 0x55, 0x66, 0x77, 0x88, 0x99, 0xAA, 0xBB, 0xCC, 0xDD, 0xEE, 0xFF]
   = [0x69, 0xC4, 0xE0, 0xD8, 0x6A, 0x7B, 0x04, 0x30, 0xD8, 0xCD, 0xB7, 0x80, 0x70, 0xB4, 0xC5, 0x5A]"
  by code_simp

text \<open>Counter mode is its own inverse, so decryption gives back what was encrypted.\<close>

lemma length_bytes_of_block: "length (bytes_of_block w) = 16"
  by (simp add: bytes_of_block_def)

lemma gctr_Nil: "gctr key cb [] = []"
  by (subst gctr.simps) simp

lemma gctr_unfold:
  "x \<noteq> [] \<Longrightarrow>
   gctr key cb x = xor_bytes (take 16 x) (aes128_encrypt_block key (bytes_of_block cb))
                   @ gctr key (inc32 cb) (drop 16 x)"
  by (subst gctr.simps) simp

lemma length_gctr: "length (gctr key cb x) = length x"
proof (induction key cb x rule: gctr.induct)
  case (1 key cb x)
  show ?case
  proof (cases "x = []")
    case True
    then show ?thesis by (simp add: gctr_Nil)
  next
    case False
    with "1.IH" have "length (gctr key (inc32 cb) (drop 16 x)) = length x - 16" by simp
    with False show ?thesis
      by (simp add: gctr_unfold length_xor_bytes length_aes128_encrypt_block)
  qed
qed

lemma gctr_involution: "gctr key cb (gctr key cb x) = x"
proof (induction key cb x rule: gctr.induct)
  case (1 key cb x)
  show ?case
  proof (cases "x = []")
    case True
    then show ?thesis by (simp add: gctr_Nil)
  next
    case False
    let ?e = "aes128_encrypt_block key (bytes_of_block cb)"
    let ?h = "xor_bytes (take 16 x) ?e"
    let ?t = "gctr key (inc32 cb) (drop 16 x)"
    have unfold: "gctr key cb x = ?h @ ?t"
      using False by (rule gctr_unfold)
    have len_h: "length ?h = min 16 (length x)"
      by (simp add: length_xor_bytes length_aes128_encrypt_block)
    have ne: "?h @ ?t \<noteq> []"
      using False len_h by (cases x) auto
    have take_h: "take 16 (?h @ ?t) = ?h"
    proof (cases "length x \<le> 16")
      case True
      then have "?t = []" by (simp add: gctr_Nil)
      with len_h True show ?thesis by simp
    next
      case False
      with len_h have "length ?h = 16" by simp
      then show ?thesis by simp
    qed
    have drop_h: "drop 16 (?h @ ?t) = ?t"
    proof (cases "length x \<le> 16")
      case True
      then have "?t = []" by (simp add: gctr_Nil)
      with len_h True show ?thesis by simp
    next
      case False
      with len_h have "length ?h = 16" by simp
      then show ?thesis by simp
    qed
    have "gctr key cb (?h @ ?t) = xor_bytes ?h ?e @ gctr key (inc32 cb) ?t"
      using ne take_h drop_h by (simp add: gctr_unfold)
    also have "xor_bytes ?h ?e = take 16 x"
      by (rule xor_bytes_cancel) (simp add: length_aes128_encrypt_block)
    also have "gctr key (inc32 cb) ?t = drop 16 x"
      using "1.IH" False by simp
    finally show ?thesis by (simp add: unfold)
  qed
qed

lemma length_gcm_tag: "length (gcm_tag key iv aad c) = 16"
  by (simp add: gcm_tag_def Let_def length_gctr length_bytes_of_block)

lemma gcm_decrypt_gcm_encrypt:
  "gcm_encrypt key iv p aad = (c, t) \<Longrightarrow> gcm_decrypt key iv c aad t = Some p"
  by (auto simp: gcm_encrypt_def gcm_decrypt_def Let_def gctr_involution)

lemma length_gcm_encrypt:
  "gcm_encrypt key iv p aad = (c, t) \<Longrightarrow> length c = length p \<and> length t = 16"
  by (auto simp: gcm_encrypt_def Let_def length_gctr length_gcm_tag)

lemma aes_gcm_decrypt_encrypt:
  "aes_gcm_decrypt K (flip_iv iv) (encrypt P K iv) = Inr P"
proof -
  obtain c t where ct: "gcm_encrypt K (flip_iv iv) P [] = (c, t)"
    by (cases "gcm_encrypt K (flip_iv iv) P []") auto
  then have len: "length c = length P" "length t = 16"
    using length_gcm_encrypt by blast+
  have e: "encrypt P K iv = c @ t" by (simp add: encrypt_def ct)
  from len have "take (length (c @ t) - 16) (c @ t) = c" "drop (length (c @ t) - 16) (c @ t) = t"
    by simp_all
  moreover have "gcm_decrypt K (flip_iv iv) c [] t = Some P"
    using ct by (rule gcm_decrypt_gcm_encrypt)
  ultimately show ?thesis
    using len by (simp add: aes_gcm_decrypt_def e)
qed

text \<open>
  A tag that differs from the one \<open>gcm_encrypt\<close> computed is always refused, and the
  refusal carries no plaintext: the recomputed tag depends on the key, the IV and the
  ciphertext only.
\<close>

lemma aes_gcm_decrypt_changed_tag:
  assumes "gcm_encrypt K iv P [] = (c, t)" and "length t' = 16" and "t' \<noteq> t"
  shows "aes_gcm_decrypt K iv (c @ t') = Inl AuthenticationError"
proof -
  from assms(1) have "gcm_tag K iv [] c = t"
    by (auto simp: gcm_encrypt_def Let_def)
  with assms(3) have "gcm_decrypt K iv c [] t' = None"
    by (auto simp: gcm_decrypt_def)
  moreover from assms(2) have "take (length (c @ t') - 16) (c @ t') = c"
    and "drop (length (c @ t') - 16) (c @ t') = t'"
    by simp_all
  ultimately show ?thesis
    using assms(2) by (simp add: aes_gcm_decrypt_def)
qed

text \<open>The response IV and the layout of \<open>encrypt\<close>'s output.\<close>

lemma nth_flip_iv: "i < length iv \<Longrightarrow> flip_iv iv ! i = NOT (iv ! i)"
  by (simp add: flip_iv_def)

lemma encrypt_appends_tag:
  "\<exists>c t. gcm_encrypt K (flip_iv iv) P [] = (c, t) \<and> length c = length P \<and> length t = 16
         \<and> encrypt P K iv = c @ t"
proof -
  obtain c t where ct: "gcm_encrypt K (flip_iv iv) P [] = (c, t)"
    by (cases "gcm_encrypt K (flip_iv iv) P []") auto
  then have "length c = length P \<and> length t = 16"
    by (rule length_gcm_encrypt)
  moreover have "encrypt P K iv = c @ t"
    by (simp add: encrypt_def ct)
  ultimately show ?thesis using ct by blast
qed

lemma decrypt_envelope:
  assumes "rsa_oaep_unwrap w = Some K" and "length K = 16"
  shows "decrypt rsa_oaep_unwrap
           \<lparr>encrypted_flow_data = encrypt P K iv, encrypted_aes_key = w,
            initial_vector = flip_iv iv\<rparr> = Inr (P, K)"
  using assms by (simp add: decrypt_def aes_gcm_decrypt_encrypt)

text \<open>
  Claim C1. For every plaintext \<open>P\<close>, every 128-bit key \<open>K\<close> and every 16-byte \<open>iv\<close>,
  decrypting \<open>encrypt P K iv\<close> with AES-128-GCM under the same key and the bytewise
  complement of \<open>iv\<close> gives back exactly \<open>P\<close>. The response IV is the complement of
  the request IV position by position (byte \<open>i\<close> of the one is the complement of byte
  \<open>i\<close> of the other), the output of \<open>encrypt\<close> is the GCM ciphertext, as long as the
  plaintext, followed by the 16-byte tag, and the spec's \<open>decrypt\<close> on an envelope that
  carries this output, the complemented IV and a wrapped key that unwraps to \<open>K\<close>
  returns \<open>P\<close> and \<open>K\<close>.
\<close>

theorem encrypt_round_trip:
  assumes "length K = 16" and "length iv = 16"
  shows "aes_gcm_decrypt K (flip_iv iv) (encrypt P K iv) = Inr P
       \<and> length (flip_iv iv) = 16
       \<and> (\<forall>i<16. flip_iv iv ! i = NOT (iv ! i))
       \<and> (\<exists>c t. gcm_encrypt K (flip_iv iv) P [] = (c, t) \<and> length c = length P
                \<and> length t = 16 \<and> encrypt P K iv = c @ t)
       \<and> (\<forall>rsa_oaep_unwrap w. rsa_oaep_unwrap w = Some K \<longrightarrow>
             decrypt rsa_oaep_unwrap
               \<lparr>encrypted_flow_data = encrypt P K iv, encrypted_aes_key = w,
                initial_vector = flip_iv iv\<rparr> = Inr (P, K))"
proof -
  have "length (flip_iv iv) = 16"
    using assms(2) by (simp add: flip_iv_def)
  moreover have "\<forall>i<16. flip_iv iv ! i = NOT (iv ! i)"
    using assms(2) by (simp add: nth_flip_iv)
  moreover have "\<forall>rsa_oaep_unwrap w. rsa_oaep_unwrap w = Some K \<longrightarrow>
             decrypt rsa_oaep_unwrap
               \<lparr>encrypted_flow_data = encrypt P K iv, encrypted_aes_key = w,
                initial_vector = flip_iv iv\<rparr> = Inr (P, K)"
    using assms(1) by (simp add: decrypt_envelope)
  ultimately show ?thesis
    using aes_gcm_decrypt_encrypt [of K iv P] encrypt_appends_tag [of K iv P] by blast
qed

text \<open>
  The theorem at a concrete key, IV and JSON body: the complemented IV is computed, and the
  body comes back from its encryption, which is 16 bytes longer.
\<close>

theorem encrypt_round_trip_witness:
  "length example_key = 16 \<and> length example_iv = 16
   \<and> flip_iv example_iv = [0xEF, 0xCD, 0xAB, 0x89, 0x67, 0x45, 0x23, 0x01,
                           0xFE, 0xDC, 0xBA, 0x98, 0x76, 0x54, 0x32, 0x10]
   \<and> aes_gcm_decrypt example_key (flip_iv example_iv)
        (encrypt example_plaintext example_key example_iv) = Inr example_plaintext
   \<and> length (encrypt example_plaintext example_key example_iv) = length example_plaintext + 16"
proof -
  have k: "length example_key = 16" and v: "length example_iv = 16"
    by (simp_all add: example_key_def example_iv_def)
  have f: "flip_iv example_iv = [0xEF, 0xCD, 0xAB, 0x89, 0x67, 0x45, 0x23, 0x01,
                                0xFE, 0xDC, 0xBA, 0x98, 0x76, 0x54, 0x32, 0x10]"
    by (simp add: flip_iv_def example_iv_def)
  note T = encrypt_round_trip [OF k v, of example_plaintext]
  from T have r: "aes_gcm_decrypt example_key (flip_iv example_iv)
        (encrypt example_plaintext example_key example_iv) = Inr example_plaintext"
    by blast
  from T obtain c t where "length c = length example_plaintext" "length t = 16"
    "encrypt example_plaintext example_key example_iv = c @ t"
    by blast
  then have l: "length (encrypt example_plaintext example_key example_iv)
                = length example_plaintext + 16"
    by simp
  from k v f r l show ?thesis by blast
qed

end
